theory Spec2Isabelle
  imports
    Complex_Main
    "HOL-Library.List_Lexorder"
    "HOL-Library.Char_ord"
    "HOL-Library.Product_Lexorder"
    "HOL-Library.Multiset"
begin

section \<open>Sales analysis: KPI, grouped aggregations and customer segmentation\<close>

text \<open>
  A shallow embedding of \<^verbatim>\<open>src/sales_analyzer.py\<close>. The program is written against
  pandas; a DataFrame of sales is a list of rows in index order, and each pandas
  operation the program calls is a list function below.

  Numbers: a float64 column is modelled by exact rationals (\<^typ>\<open>rat\<close>) together with the
  special values of \<open>npfloat\<close> where the program can produce them; binary rounding error
  of float addition is not modelled. Integer columns (counts, quantities) are \<^typ>\<open>nat\<close>
  or \<^typ>\<open>int\<close>. Strings are \<^typ>\<open>string\<close> with one \<^typ>\<open>char\<close> per code point below
  256, compared lexicographically by code point as Python does.
\<close>

subsection \<open>Data model\<close>

text \<open>A calendar date (year, month, day) and a monthly period (year, month); both are
  ordered lexicographically, which is chronological order.\<close>

type_synonym date = "int \<times> int \<times> int"
type_synonym period = "int \<times> int"

text \<open>One row of the sales table. The CSV also carries year, month, quarter and weekday
  columns, which \<^verbatim>\<open>sales_analyzer.py\<close> never reads. The column \<^verbatim>\<open>product\<close> is the
  field \<open>product_name\<close> here.\<close>

record sale =
  order_id :: string
  date :: date
  customer_id :: string
  product_name :: string
  category :: string
  quantity :: int
  unit_price :: rat
  total_price :: rat
  unit_cost :: rat
  total_cost :: rat
  profit :: rat
  margin_percent :: rat
  region :: string
  channel :: string
  status :: string

text \<open>The status strings for a delivered and for a cancelled order and the name of the
  segment of regular customers. Each has one accented letter, an e with an acute accent,
  which is code point 233.\<close>

definition livree :: string where
  "livree = ''Livr'' @ [CHR 0xE9] @ ''e''"

definition annulee :: string where
  "annulee = ''Annul'' @ [CHR 0xE9] @ ''e''"

definition regulier :: string where
  "regulier = ''R'' @ [CHR 0xE9] @ ''gulier''"

subsection \<open>The pandas and numpy operations the program uses\<close>

text \<open>A float64 result: a finite value, an infinity or not-a-number.\<close>

datatype npfloat = Finite rat | PosInf | NegInf | NaN

datatype py_error = ZeroDivisionError

text \<open>\<^verbatim>\<open>Series.mean()\<close>: NaN on an empty column.\<close>

definition mean :: "rat list \<Rightarrow> npfloat" where
  "mean xs = (if xs = [] then NaN else Finite (sum_list xs / of_nat (length xs)))"

text \<open>Division of a numpy float by an integer: no exception, \<open>0/0\<close> is NaN.\<close>

definition np_truediv :: "rat \<Rightarrow> nat \<Rightarrow> npfloat" where
  "np_truediv x n =
     (if n \<noteq> 0 then Finite (x / of_nat n)
      else if x = 0 then NaN
      else if 0 < x then PosInf else NegInf)"

text \<open>\<^verbatim>\<open>Series.nunique()\<close>.\<close>

definition nunique :: "'a list \<Rightarrow> nat" where
  "nunique xs = length (remdups xs)"

text \<open>\<^verbatim>\<open>round(2)\<close> on floats: numpy scales by 100, rounds to the nearest integer with
  ties to the even one, and scales back. The model does this on the exact value. numpy
  does it on the binary float and its float product, so a value written with a 5 as
  third decimal, which has no exact binary form, can land on either side of the half
  there (8.345 becomes 8.35, the exact value gives 8.34). The two agree on amounts in
  whole cents of any size a sale can reach, and on every value whose hundredfold is not
  within float error of a half; the statements below equate \<open>round2\<close> with a value of
  the program on amounts in whole cents only.\<close>

definition rint :: "rat \<Rightarrow> int" where
  "rint x = (let f = \<lfloor>x\<rfloor>; d = x - of_int f
             in if d < 1/2 then f else if 1/2 < d then f + 1
                else if even f then f else f + 1)"

definition round2 :: "rat \<Rightarrow> rat" where
  "round2 x = of_int (rint (x * 100)) / 100"

fun np_round2 :: "npfloat \<Rightarrow> npfloat" where
  "np_round2 (Finite x) = Finite (round2 x)"
| "np_round2 v = v"

text \<open>\<^verbatim>\<open>df.groupby(col)\<close> with the default \<^verbatim>\<open>sort=True\<close>: one group per distinct key,
  keys ascending, each group holding its rows in their original order.\<close>

definition groupby :: "('r \<Rightarrow> 'k::linorder) \<Rightarrow> 'r list \<Rightarrow> ('k \<times> 'r list) list" where
  "groupby col df = map (\<lambda>k. (k, filter (\<lambda>r. col r = k) df)) (sort (remdups (map col df)))"

text \<open>\<^verbatim>\<open>sort_values(col, ascending=False)\<close>: the rows in descending order of the
  column. The program passes no \<^verbatim>\<open>kind\<close> and no second column, so the sort is numpy's
  default \<^verbatim>\<open>quicksort\<close>, which promises no order among rows with equal values. The
  model sorts ascending and reverses: rows with equal values come out in the reverse of
  their order in the table, which for a grouped table is descending key order.\<close>

definition sort_values_desc :: "('r \<Rightarrow> rat) \<Rightarrow> 'r list \<Rightarrow> 'r list" where
  "sort_values_desc col t = rev (sort_key col t)"

text \<open>\<^verbatim>\<open>head(n)\<close> is \<^verbatim>\<open>iloc[:n]\<close>: the first \<open>n\<close> rows, or all but the last \<open>-n\<close> for
  a negative \<open>n\<close>.\<close>

definition head :: "int \<Rightarrow> 'r list \<Rightarrow> 'r list" where
  "head n t = (if 0 \<le> n then take (nat n) t else take (length t - nat (- n)) t)"

text \<open>\<^verbatim>\<open>Series.max()\<close> on a datetime column: \<open>None\<close> is NaT, the result on an empty
  column.\<close>

definition col_max :: "date list \<Rightarrow> date option" where
  "col_max ds = (case ds of [] \<Rightarrow> None | d # ds' \<Rightarrow> Some (fold max ds' d))"

text \<open>Day number of a date (proleptic Gregorian ordinal), for the difference of two
  timestamps in days. The table of days before a month is read at \<open>m - 1\<close> for a month
  \<open>m\<close> from 1 to 12.\<close>

definition is_leap :: "int \<Rightarrow> bool" where
  "is_leap y = (y mod 4 = 0 \<and> (y mod 100 \<noteq> 0 \<or> y mod 400 = 0))"

definition days_before_year :: "int \<Rightarrow> int" where
  "days_before_year y = (y - 1) * 365 + (y - 1) div 4 - (y - 1) div 100 + (y - 1) div 400"

definition days_before_month :: "int \<Rightarrow> int \<Rightarrow> int" where
  "days_before_month y m =
     [0, 31, 59, 90, 120, 151, 181, 212, 243, 273, 304, 334] ! (nat (m - 1) mod 12)
     + (if 2 < m \<and> is_leap y then 1 else 0)"

definition toordinal :: "date \<Rightarrow> int" where
  "toordinal dt = (case dt of (y, m, d) \<Rightarrow> days_before_year y + days_before_month y m + d)"

text \<open>\<^verbatim>\<open>(max_date - col).dt.days\<close>; NaT on either side gives a missing value.\<close>

definition days_between :: "date option \<Rightarrow> date option \<Rightarrow> int option" where
  "days_between a b =
     (case (a, b) of (Some x, Some y) \<Rightarrow> Some (toordinal x - toordinal y) | _ \<Rightarrow> None)"

text \<open>\<^verbatim>\<open>dt.to_period('M')\<close>.\<close>

definition to_period_M :: "date \<Rightarrow> period" where
  "to_period_M dt = (case dt of (y, m, d) \<Rightarrow> (y, m))"

subsection \<open>Delivered rows\<close>

text \<open>\<^verbatim>\<open>df[df['status'] == ...]\<close> with the status string of a delivered order, as a
  table.\<close>

definition df_delivered :: "sale list \<Rightarrow> sale list" where
  "df_delivered df = filter (\<lambda>r. status r = livree) df"

subsection \<open>KPI\<close>

record kpis =
  chiffre_affaires :: rat
  profit_total :: rat
  marge_moyenne :: npfloat
  nombre_ventes :: nat
  panier_moyen :: npfloat
  nombre_clients :: nat
  ca_par_client :: npfloat
  taux_annulation :: rat

text \<open>\<^verbatim>\<open>calculate_kpis\<close>. The dictionary entries are evaluated in order. The numpy
  operations return NaN where they divide by zero; the last entry divides two Python
  integers, which raises on an empty table.\<close>

definition calculate_kpis :: "sale list \<Rightarrow> py_error + kpis" where
  "calculate_kpis df =
     (let d = df_delivered df in
      if length df = 0 then Inl ZeroDivisionError
      else Inr \<lparr>
        chiffre_affaires = sum_list (map total_price d),
        profit_total = sum_list (map profit d),
        marge_moyenne = mean (map margin_percent d),
        nombre_ventes = length d,
        panier_moyen = mean (map total_price d),
        nombre_clients = nunique (map customer_id d),
        ca_par_client = np_truediv (sum_list (map total_price d)) (nunique (map customer_id d)),
        taux_annulation =
          (of_nat (length (filter (\<lambda>r. status r = annulee) df)) / of_nat (length df)) * 100 \<rparr>)"

subsection \<open>Aggregations by category, region, channel and product\<close>

record category_row =
  cat_category :: string
  cat_CA_total :: rat
  cat_CA_moyen :: npfloat
  cat_Nb_ventes :: nat
  cat_Profit_total :: rat
  cat_Marge :: npfloat
  cat_Quantite_totale :: int

text \<open>The body of \<^verbatim>\<open>analyze_by_category\<close> after the filter, on the delivered rows.\<close>

definition category_analysis :: "sale list \<Rightarrow> category_row list" where
  "category_analysis d =
     sort_values_desc cat_CA_total
       (map (\<lambda>(k, g). \<lparr>
          cat_category = k,
          cat_CA_total = round2 (sum_list (map total_price g)),
          cat_CA_moyen = np_round2 (mean (map total_price g)),
          cat_Nb_ventes = length g,
          cat_Profit_total = round2 (sum_list (map profit g)),
          cat_Marge = np_round2 (mean (map margin_percent g)),
          cat_Quantite_totale = sum_list (map quantity g) \<rparr>)
        (groupby category d))"

definition analyze_by_category :: "sale list \<Rightarrow> category_row list" where
  "analyze_by_category df = category_analysis (df_delivered df)"

record region_row =
  reg_region :: string
  reg_CA_total :: rat
  reg_CA_moyen :: npfloat
  reg_Profit :: rat
  reg_Nb_commandes :: nat
  reg_Nb_clients :: nat

definition region_analysis :: "sale list \<Rightarrow> region_row list" where
  "region_analysis d =
     sort_values_desc reg_CA_total
       (map (\<lambda>(k, g). \<lparr>
          reg_region = k,
          reg_CA_total = round2 (sum_list (map total_price g)),
          reg_CA_moyen = np_round2 (mean (map total_price g)),
          reg_Profit = round2 (sum_list (map profit g)),
          reg_Nb_commandes = length g,
          reg_Nb_clients = nunique (map customer_id g) \<rparr>)
        (groupby region d))"

definition analyze_by_region :: "sale list \<Rightarrow> region_row list" where
  "analyze_by_region df = region_analysis (df_delivered df)"

record channel_row =
  chn_channel :: string
  chn_CA_total :: rat
  chn_CA_moyen :: npfloat
  chn_Profit :: rat
  chn_Marge :: npfloat
  chn_Nb_ventes :: nat

definition channel_analysis :: "sale list \<Rightarrow> channel_row list" where
  "channel_analysis d =
     sort_values_desc chn_CA_total
       (map (\<lambda>(k, g). \<lparr>
          chn_channel = k,
          chn_CA_total = round2 (sum_list (map total_price g)),
          chn_CA_moyen = np_round2 (mean (map total_price g)),
          chn_Profit = round2 (sum_list (map profit g)),
          chn_Marge = np_round2 (mean (map margin_percent g)),
          chn_Nb_ventes = length g \<rparr>)
        (groupby channel d))"

definition analyze_by_channel :: "sale list \<Rightarrow> channel_row list" where
  "analyze_by_channel df = channel_analysis (df_delivered df)"

record product_row =
  prd_product :: string
  prd_CA_total :: rat
  prd_Profit :: rat
  prd_Marge :: npfloat
  prd_Quantite_vendue :: int
  prd_Nb_commandes :: nat

text \<open>The table of all products of the delivered rows, before \<^verbatim>\<open>head(top_n)\<close>
  cuts it.\<close>

definition product_analysis :: "sale list \<Rightarrow> product_row list" where
  "product_analysis d =
     sort_values_desc prd_CA_total
       (map (\<lambda>(k, g). \<lparr>
          prd_product = k,
          prd_CA_total = round2 (sum_list (map total_price g)),
          prd_Profit = round2 (sum_list (map profit g)),
          prd_Marge = np_round2 (mean (map margin_percent g)),
          prd_Quantite_vendue = sum_list (map quantity g),
          prd_Nb_commandes = length g \<rparr>)
        (groupby product_name d))"

definition analyze_by_product :: "sale list \<Rightarrow> int \<Rightarrow> product_row list" where
  "analyze_by_product df top_n = head top_n (product_analysis (df_delivered df))"

text \<open>The call \<^verbatim>\<open>analyze_by_product(df)\<close>, with the default \<^verbatim>\<open>top_n=10\<close>.\<close>

definition analyze_by_product_default :: "sale list \<Rightarrow> product_row list" where
  "analyze_by_product_default df = analyze_by_product df 10"

subsection \<open>Monthly trends\<close>

record trend_row =
  trd_year_month :: period
  trd_CA :: rat
  trd_Profit :: rat
  trd_Nb_commandes :: nat
  trd_Nb_clients :: nat

text \<open>The function adds the column \<^verbatim>\<open>year_month\<close> to the delivered rows and groups by
  it; here a row with that column is a pair. The result is not sorted again: it keeps
  the order of \<open>groupby\<close>.\<close>

definition monthly_trends :: "(sale \<times> period) list \<Rightarrow> trend_row list" where
  "monthly_trends t =
     map (\<lambda>(k, g). \<lparr>
        trd_year_month = k,
        trd_CA = round2 (sum_list (map (total_price \<circ> fst) g)),
        trd_Profit = round2 (sum_list (map (profit \<circ> fst) g)),
        trd_Nb_commandes = length g,
        trd_Nb_clients = nunique (map (customer_id \<circ> fst) g) \<rparr>)
      (groupby snd t)"

definition analyze_time_trends :: "sale list \<Rightarrow> trend_row list" where
  "analyze_time_trends df =
     monthly_trends (map (\<lambda>r. (r, to_period_M (date r))) (df_delivered df))"

subsection \<open>Customer segmentation\<close>

text \<open>The per-customer table as it grows: the grouped columns, then the recency, then
  the segment.\<close>

record customer_metrics =
  cm_customer_id :: string
  derniere_commande :: "date option"
  nb_commandes :: nat
  ca_total :: rat

record customer_recence = customer_metrics +
  recence_jours :: "int option"

record customer_segment = customer_recence +
  segment :: string

definition add_recence_jours :: "customer_metrics \<Rightarrow> int option \<Rightarrow> customer_recence" where
  "add_recence_jours m r =
     \<lparr> cm_customer_id = cm_customer_id m, derniere_commande = derniere_commande m,
       nb_commandes = nb_commandes m, ca_total = ca_total m, recence_jours = r \<rparr>"

definition add_segment :: "customer_recence \<Rightarrow> string \<Rightarrow> customer_segment" where
  "add_segment m s =
     \<lparr> cm_customer_id = cm_customer_id m, derniere_commande = derniere_commande m,
       nb_commandes = nb_commandes m, ca_total = ca_total m,
       recence_jours = recence_jours m, segment = s \<rparr>"

text \<open>The inner function \<^verbatim>\<open>segment_customer(row)\<close>: it reads the columns
  \<^verbatim>\<open>nb_commandes\<close> and \<^verbatim>\<open>ca_total\<close> of the row.\<close>

definition segment_customer :: "'a customer_metrics_scheme \<Rightarrow> string" where
  "segment_customer row =
     (if 5 < nb_commandes row \<or> 2000 < ca_total row then ''VIP''
      else if 3 \<le> nb_commandes row then regulier
      else ''Occasionnel'')"

record segment_row =
  sgm_segment :: string
  sgm_ca_total_sum :: rat
  sgm_ca_total_mean :: npfloat
  sgm_nb_commandes_sum :: nat
  sgm_nb_commandes_mean :: npfloat
  sgm_recence_jours_mean :: npfloat

text \<open>The table \<^verbatim>\<open>customer_metrics\<close> after its last column is set.\<close>

definition customer_metrics_table :: "sale list \<Rightarrow> customer_segment list" where
  "customer_metrics_table d =
     (let metrics = map (\<lambda>(k, g). \<lparr>
            cm_customer_id = k,
            derniere_commande = col_max (map date g),
            nb_commandes = length g,
            ca_total = round2 (sum_list (map total_price g)) \<rparr>)
          (groupby customer_id d);
          max_date = col_max (map date d);
          with_recence =
            map (\<lambda>m. add_recence_jours m (days_between max_date (derniere_commande m))) metrics
      in map (\<lambda>m. add_segment m (segment_customer m)) with_recence)"

text \<open>The summary by segment; the mean of the recency skips missing values.\<close>

definition segment_summary :: "customer_segment list \<Rightarrow> segment_row list" where
  "segment_summary cm =
     map (\<lambda>(k, g). \<lparr>
        sgm_segment = k,
        sgm_ca_total_sum = round2 (sum_list (map ca_total g)),
        sgm_ca_total_mean = np_round2 (mean (map ca_total g)),
        sgm_nb_commandes_sum = sum_list (map nb_commandes g),
        sgm_nb_commandes_mean = np_round2 (mean (map (of_nat \<circ> nb_commandes) g)),
        sgm_recence_jours_mean =
          np_round2 (mean (map of_int (List.map_filter recence_jours g))) \<rparr>)
      (groupby segment cm)"

text \<open>\<^verbatim>\<open>analyze_customer_segments\<close>: the pair it returns. The assignment of the date
  column to itself (parsed dates stay as they are) changes no value.\<close>

definition analyze_customer_segments ::
    "sale list \<Rightarrow> customer_segment list \<times> segment_row list" where
  "analyze_customer_segments df =
     (let cm = customer_metrics_table (df_delivered df) in (cm, segment_summary cm))"

subsection \<open>DataFrames as objects\<close>

text \<open>The functions above are the results as functions of the table. The program
  works on DataFrame objects: the caller passes a reference, some statements build new
  objects and some assign to a column of an object in place. Here the store is the list
  of all DataFrame objects of sales rows, a reference is an index into it, and each
  function returns its result with the store it leaves behind. The column
  \<^verbatim>\<open>year_month\<close> exists only on frames that were given one.\<close>

record frame =
  rows :: "sale list"
  year_month :: "period list option"

type_synonym ref = nat
type_synonym store = "frame list"

definition new_frame :: "frame \<Rightarrow> store \<Rightarrow> ref \<times> store" where
  "new_frame f s = (length s, s @ [f])"

text \<open>\<^verbatim>\<open>df[mask]\<close>: indexing with a boolean mask builds a new object.\<close>

definition getitem_mask :: "(sale \<Rightarrow> bool) \<Rightarrow> ref \<Rightarrow> store \<Rightarrow> ref \<times> store" where
  "getitem_mask p df s =
     (let f = s ! df in
      new_frame \<lparr> rows = filter p (rows f),
                  year_month = map_option (\<lambda>c. map snd (filter (\<lambda>(r, y). p r) (zip (rows f) c)))
                                 (year_month f) \<rparr> s)"

text \<open>\<^verbatim>\<open>df.copy()\<close>.\<close>

definition frame_copy :: "ref \<Rightarrow> store \<Rightarrow> ref \<times> store" where
  "frame_copy df s = new_frame (s ! df) s"

text \<open>\<^verbatim>\<open>df['year_month'] = col\<close> and \<^verbatim>\<open>df['date'] = col\<close>: assignments in place.\<close>

definition setitem_year_month :: "ref \<Rightarrow> period list \<Rightarrow> store \<Rightarrow> store" where
  "setitem_year_month df col s = s[df := (s ! df)\<lparr>year_month := Some col\<rparr>]"

definition setitem_date :: "ref \<Rightarrow> date list \<Rightarrow> store \<Rightarrow> store" where
  "setitem_date df col s =
     s[df := (s ! df)\<lparr>rows := map (\<lambda>(r, d). r\<lparr>date := d\<rparr>) (zip (rows (s ! df)) col)\<rparr>]"

definition analyze_by_category_st :: "ref \<Rightarrow> store \<Rightarrow> category_row list \<times> store" where
  "analyze_by_category_st df s =
     (let (d, s1) = getitem_mask (\<lambda>r. status r = livree) df s
      in (category_analysis (rows (s1 ! d)), s1))"

definition analyze_by_region_st :: "ref \<Rightarrow> store \<Rightarrow> region_row list \<times> store" where
  "analyze_by_region_st df s =
     (let (d, s1) = getitem_mask (\<lambda>r. status r = livree) df s
      in (region_analysis (rows (s1 ! d)), s1))"

definition analyze_by_channel_st :: "ref \<Rightarrow> store \<Rightarrow> channel_row list \<times> store" where
  "analyze_by_channel_st df s =
     (let (d, s1) = getitem_mask (\<lambda>r. status r = livree) df s
      in (channel_analysis (rows (s1 ! d)), s1))"

definition analyze_by_product_st :: "ref \<Rightarrow> int \<Rightarrow> store \<Rightarrow> product_row list \<times> store" where
  "analyze_by_product_st df top_n s =
     (let (d, s1) = getitem_mask (\<lambda>r. status r = livree) df s
      in (head top_n (product_analysis (rows (s1 ! d))), s1))"

text \<open>\<^verbatim>\<open>analyze_time_trends\<close> assigns the new column to the filtered frame.\<close>

definition analyze_time_trends_st :: "ref \<Rightarrow> store \<Rightarrow> trend_row list \<times> store" where
  "analyze_time_trends_st df s =
     (let (d, s1) = getitem_mask (\<lambda>r. status r = livree) df s;
          ym = map (\<lambda>r. to_period_M (date r)) (rows (s1 ! d));
          s2 = setitem_year_month d ym s1
      in (monthly_trends (zip (rows (s2 ! d)) ym), s2))"

text \<open>\<^verbatim>\<open>analyze_customer_segments\<close> copies the filtered frame and assigns its date
  column, converted by \<^verbatim>\<open>pd.to_datetime\<close> (the identity on dates), to the copy.\<close>

definition analyze_customer_segments_st ::
    "ref \<Rightarrow> store \<Rightarrow> (customer_segment list \<times> segment_row list) \<times> store" where
  "analyze_customer_segments_st df s =
     (let (m, s1) = getitem_mask (\<lambda>r. status r = livree) df s;
          (d, s2) = frame_copy m s1;
          s3 = setitem_date d (map date (rows (s2 ! d))) s2;
          cm = customer_metrics_table (rows (s3 ! d))
      in ((cm, segment_summary cm), s3))"

subsection \<open>Example tables\<close>

text \<open>A sale of one unit with no cost, for the concrete tables below.\<close>

definition example_sale ::
    "string \<Rightarrow> date \<Rightarrow> string \<Rightarrow> string \<Rightarrow> string \<Rightarrow> rat \<Rightarrow> string \<Rightarrow> string \<Rightarrow> string \<Rightarrow> sale" where
  "example_sale oid dt cust prd cat price reg chan st =
     \<lparr> order_id = oid, date = dt, customer_id = cust, product_name = prd, category = cat,
       quantity = 1, unit_price = price, total_price = price, unit_cost = 0, total_cost = 0,
       profit = price, margin_percent = (if 0 < price then 100 else 0),
       region = reg, channel = chan, status = st \<rparr>"

text \<open>Three delivered sales, one cancelled and one in progress.\<close>

definition example_df :: "sale list" where
  "example_df =
     [example_sale ''ORD-1'' (2024, 1, 5) ''C1000'' ''Mouse'' ''Accessoires'' 29 ''Nord'' ''Online'' livree,
      example_sale ''ORD-2'' (2024, 2, 7) ''C1001'' ''SSD 1TB'' ''Stockage'' 29 ''Sud'' ''Magasin'' livree,
      example_sale ''ORD-3'' (2024, 2, 9) ''C1001'' ''Webcam'' ''Accessoires'' 89 ''Sud'' ''Magasin'' annulee,
      example_sale ''ORD-4'' (2024, 2, 20) ''C1002'' ''Charger'' ''Accessoires'' 2500 ''Est'' ''Direct'' livree,
      example_sale ''ORD-5'' (2024, 3, 2) ''C1000'' ''Mouse'' ''Accessoires'' 31 ''Nord'' ''Online'' ''En cours'']"

text \<open>A table with one cancelled sale, one with one delivered sale, and one where two
  groups of every dimension have the same sum.\<close>

definition cancelled_only :: "sale list" where
  "cancelled_only =
     [example_sale ''ORD-3'' (2024, 2, 9) ''C1001'' ''Webcam'' ''Accessoires'' 89 ''Sud'' ''Magasin'' annulee]"

definition delivered_only :: "sale list" where
  "delivered_only =
     [example_sale ''ORD-1'' (2024, 1, 5) ''C1000'' ''Mouse'' ''Accessoires'' 29 ''Nord'' ''Online'' livree]"

definition tie_df :: "sale list" where
  "tie_df =
     [example_sale ''ORD-1'' (2024, 1, 5) ''C1000'' ''Mouse'' ''Accessoires'' 29 ''Nord'' ''Online'' livree,
      example_sale ''ORD-2'' (2024, 2, 7) ''C1001'' ''SSD 1TB'' ''Stockage'' 29 ''Sud'' ''Magasin'' livree]"

text \<open>Eleven delivered sales of eleven products at the same price, and one delivered
  sale worth an eighth of a unit.\<close>

definition eleven_products :: "sale list" where
  "eleven_products =
     map (\<lambda>p. example_sale ''ORD-1'' (2024, 1, 5) ''C1000'' p ''Accessoires'' 10 ''Nord'' ''Online'' livree)
       [''Laptop'', ''Smartphone'', ''Tablet'', ''Headphones'', ''Mouse'', ''Keyboard'',
        ''Monitor'', ''Webcam'', ''SSD 1TB'', ''External HDD'', ''USB Cable'']"

definition eighth_df :: "sale list" where
  "eighth_df =
     [example_sale ''ORD-1'' (2024, 1, 5) ''C1000'' ''USB Cable'' ''Accessoires'' (1/8) ''Nord'' ''Online'' livree]"

text \<open>One delivered sale of 2000.004, and two tables of two products whose sums differ
  by less than a cent: 10.004 and 10.001 in the first, 10.001 and 10.004 in the second.\<close>

definition sub_cent_df :: "sale list" where
  "sub_cent_df =
     [example_sale ''ORD-1'' (2024, 1, 5) ''C1000'' ''Laptop'' ''Accessoires'' (2000004/1000) ''Nord'' ''Online'' livree]"

definition close_sums_a :: "sale list" where
  "close_sums_a =
     [example_sale ''ORD-1'' (2024, 1, 5) ''C1000'' ''Mouse'' ''Accessoires'' (10004/1000) ''Nord'' ''Online'' livree,
      example_sale ''ORD-2'' (2024, 1, 6) ''C1001'' ''Webcam'' ''Accessoires'' (10001/1000) ''Nord'' ''Online'' livree]"

definition close_sums_b :: "sale list" where
  "close_sums_b =
     [example_sale ''ORD-1'' (2024, 1, 5) ''C1000'' ''Mouse'' ''Accessoires'' (10001/1000) ''Nord'' ''Online'' livree,
      example_sale ''ORD-2'' (2024, 1, 6) ''C1001'' ''Webcam'' ''Accessoires'' (10004/1000) ''Nord'' ''Online'' livree]"

subsection \<open>Amounts in whole cents\<close>

text \<open>An amount with at most two decimals, as the generator of the data writes them
  (it rounds every price to two decimals).\<close>

definition is_cents :: "rat \<Rightarrow> bool" where
  "is_cents x = (of_int \<lfloor>x * 100\<rfloor> = x * 100)"

section \<open>Properties\<close>

subsection \<open>Grouping\<close>

lemma groupby_keys: "map fst (groupby col df) = sort (remdups (map col df))"
  by (simp add: groupby_def comp_def)

lemma groupby_keys_ascending: "sorted_wrt (<) (map fst (groupby col df))"
  by (simp add: groupby_keys strict_sorted_iff)

lemma groupby_Nil: "groupby col [] = []"
  by (simp add: groupby_def)

lemma sum_list_indicator:
  fixes v :: "'b::comm_monoid_add"
  shows "distinct ks \<Longrightarrow>
    sum_list (map (\<lambda>k. if x = k then v else 0) ks) = (if x \<in> set ks then v else 0)"
  by (induction ks) auto

text \<open>Summing group by group over distinct keys counts each row with one of the keys
  once.\<close>

lemma sum_list_by_keys:
  fixes f :: "'r \<Rightarrow> 'b::comm_monoid_add"
  assumes "distinct ks"
  shows "sum_list (map (\<lambda>k. sum_list (map f (filter (\<lambda>r. col r = k) df))) ks)
       = sum_list (map f (filter (\<lambda>r. col r \<in> set ks) df))"
proof (induction df)
  case Nil
  show ?case by simp
next
  case (Cons r df)
  have "sum_list (map (\<lambda>k. sum_list (map f (filter (\<lambda>r. col r = k) (r # df)))) ks)
      = sum_list (map (\<lambda>k. (if col r = k then f r else 0)
                            + sum_list (map f (filter (\<lambda>r. col r = k) df))) ks)"
    by (intro arg_cong[where f=sum_list] map_cong) auto
  also have "\<dots> = sum_list (map (\<lambda>k. if col r = k then f r else 0) ks)
                 + sum_list (map (\<lambda>k. sum_list (map f (filter (\<lambda>r. col r = k) df))) ks)"
    by (simp add: sum_list_addf)
  also have "\<dots> = (if col r \<in> set ks then f r else 0)
                 + sum_list (map f (filter (\<lambda>r. col r \<in> set ks) df))"
    using assms Cons.IH by (simp add: sum_list_indicator)
  finally show ?case by simp
qed

lemma groupby_partition:
  fixes f :: "'r \<Rightarrow> 'b::comm_monoid_add"
  shows "sum_list (map (\<lambda>(k, g). sum_list (map f g)) (groupby col df)) = sum_list (map f df)"
proof -
  have "sum_list (map (\<lambda>(k, g). sum_list (map f g)) (groupby col df))
      = sum_list (map (\<lambda>k. sum_list (map f (filter (\<lambda>r. col r = k) df)))
          (sort (remdups (map col df))))"
    by (simp add: groupby_def comp_def)
  also have "\<dots> = sum_list (map f (filter (\<lambda>r. col r \<in> set (sort (remdups (map col df)))) df))"
    by (rule sum_list_by_keys) simp
  also have "\<dots> = sum_list (map f df)"
    by simp
  finally show ?thesis .
qed

subsection \<open>Sorting\<close>

lemma sort_values_desc_mset: "mset (sort_values_desc col t) = mset t"
  by (simp add: sort_values_desc_def)

lemma sort_values_desc_set: "set (sort_values_desc col t) = set t"
  by (simp add: sort_values_desc_def)

lemma sort_values_desc_length: "length (sort_values_desc col t) = length t"
  by (simp add: sort_values_desc_def)

lemma sort_values_desc_descending:
  "sorted_wrt (\<lambda>a b. b \<le> a) (map col (sort_values_desc col t))"
proof -
  have "sorted (map col (sort_key col t))" by (rule sorted_sort_key)
  then show ?thesis
    by (simp add: sort_values_desc_def rev_map[symmetric] sorted_wrt_rev)
qed

lemma sort_values_desc_sum:
  fixes f :: "'r \<Rightarrow> 'b::comm_monoid_add"
  shows "sum_list (map f (sort_values_desc col t)) = sum_list (map f t)"
proof -
  have "mset (map f (sort_values_desc col t)) = mset (map f t)"
    by (simp add: sort_values_desc_mset)
  then show ?thesis by (metis sum_mset_sum_list)
qed

subsection \<open>The customer table\<close>

lemma segment_customer_add [simp]:
  "segment_customer (add_segment m s) = segment_customer m"
  "segment_customer (add_recence_jours m0 r) = segment_customer m0"
  by (simp_all add: segment_customer_def add_segment_def add_recence_jours_def)

lemma customer_metrics_table_ids:
  "map cm_customer_id (customer_metrics_table d) = sort (remdups (map customer_id d))"
  by (simp add: customer_metrics_table_def Let_def groupby_def comp_def
        add_segment_def add_recence_jours_def)

text \<open>Each row of the table holds the count and the rounded sum of its customer's rows,
  and the segment computed from these two columns.\<close>

lemma customer_metrics_table_row:
  assumes "m \<in> set (customer_metrics_table d)"
  shows "cm_customer_id m \<in> customer_id ` set d
       \<and> nb_commandes m = length (filter (\<lambda>r. customer_id r = cm_customer_id m) d)
       \<and> ca_total m = round2 (sum_list (map total_price
            (filter (\<lambda>r. customer_id r = cm_customer_id m) d)))
       \<and> segment m = segment_customer m"
  using assms
  by (auto simp: customer_metrics_table_def Let_def groupby_def
        add_segment_def add_recence_jours_def segment_customer_def)

subsection \<open>The aggregated tables\<close>

lemma sort_values_desc_map_mset: "mset (map f (sort_values_desc col t)) = mset (map f t)"
  by (simp add: sort_values_desc_mset)

lemma head_sorted_wrt: "sorted_wrt P t \<Longrightarrow> sorted_wrt P (head n t)"
  by (simp add: head_def sorted_wrt_take)

lemma monthly_trends_keys: "map trd_year_month (monthly_trends t) = map fst (groupby snd t)"
  by (simp add: monthly_trends_def comp_def case_prod_unfold)

lemma product_analysis_descending:
  "sorted_wrt (\<lambda>a b. b \<le> a) (map prd_CA_total (product_analysis d))"
  unfolding product_analysis_def by (rule sort_values_desc_descending)

text \<open>The product table has one row for each product of the delivered rows, holding the
  rounded sum of that product's rows.\<close>

lemma product_analysis_products:
  "mset (map prd_product (product_analysis d)) = mset (remdups (map product_name d))"
proof -
  have "mset (map prd_product (product_analysis d))
      = mset (map fst (groupby product_name d))"
    unfolding product_analysis_def sort_values_desc_map_mset
    by (simp add: comp_def case_prod_unfold)
  then show ?thesis by (simp add: groupby_keys)
qed

lemma product_analysis_row:
  assumes "a \<in> set (product_analysis d)"
  shows "prd_CA_total a
       = round2 (sum_list (map total_price (filter (\<lambda>r. product_name r = prd_product a) d)))"
  using assms by (auto simp: product_analysis_def sort_values_desc_set groupby_def)

lemma product_analysis_distinct: "distinct (map prd_product (product_analysis d))"
proof -
  have "distinct (remdups (map product_name d))" by simp
  then show ?thesis
    using product_analysis_products [of d] by (metis mset_eq_imp_distinct_iff)
qed

lemma product_analysis_set:
  "set (map prd_product (product_analysis d)) = product_name ` set d"
proof -
  have "set (map prd_product (product_analysis d)) = set (remdups (map product_name d))"
    using product_analysis_products [of d] by (rule mset_eq_setD)
  then show ?thesis by simp
qed

lemma product_analysis_length:
  "length (product_analysis d) = nunique (map product_name d)"
  by (simp add: product_analysis_def sort_values_desc_length groupby_def nunique_def)




text \<open>On a table without rows the last entry of the KPI dictionary raises.\<close>

lemma calculate_kpis_empty_raises: "calculate_kpis [] = Inl ZeroDivisionError"
  by (simp add: calculate_kpis_def)

subsection \<open>Rounding amounts in whole cents\<close>

lemma is_cents_iff: "is_cents x \<longleftrightarrow> x * 100 \<in> \<int>"
  unfolding is_cents_def by (metis Ints_of_int of_int_floor)

lemma rint_of_int: "rint (of_int n) = n"
  by (simp add: rint_def)

lemma round2_cents: "is_cents x \<Longrightarrow> round2 x = x"
proof -
  assume "is_cents x"
  then obtain n :: int where n: "x * 100 = of_int n"
    unfolding is_cents_iff by (auto elim: Ints_cases)
  then have "round2 x = of_int n / 100"
    by (simp add: round2_def rint_of_int)
  also have "\<dots> = x" using n by simp
  finally show ?thesis .
qed

lemma is_cents_sum_list:
  "(\<forall>x \<in> set xs. is_cents x) \<Longrightarrow> is_cents (sum_list xs)"
  by (induction xs) (auto simp: is_cents_iff distrib_right)

text \<open>When every amount is in whole cents, rounding the sum of each group changes
  nothing, and the rounded sums of the groups add up to the sum of the table.\<close>

lemma round2_group_sums:
  fixes f :: "'r \<Rightarrow> rat"
  assumes "\<forall>r \<in> set d. is_cents (f r)"
  shows "sum_list (map (\<lambda>(k, g). round2 (sum_list (map f g))) (groupby col d))
       = sum_list (map f d)"
proof -
  have "map (\<lambda>(k, g). round2 (sum_list (map f g))) (groupby col d)
      = map (\<lambda>(k, g). sum_list (map f g)) (groupby col d)"
  proof (rule map_cong [OF refl])
    fix x assume "x \<in> set (groupby col d)"
    then obtain k where x: "x = (k, filter (\<lambda>r. col r = k) d)"
      by (auto simp: groupby_def)
    have "is_cents (sum_list (map f (filter (\<lambda>r. col r = k) d)))"
      using assms by (intro is_cents_sum_list) auto
    then show "(case x of (k, g) \<Rightarrow> round2 (sum_list (map f g)))
             = (case x of (k, g) \<Rightarrow> sum_list (map f g))"
      by (simp add: x round2_cents)
  qed
  then have "sum_list (map (\<lambda>(k, g). round2 (sum_list (map f g))) (groupby col d))
      = sum_list (map (\<lambda>(k, g). sum_list (map f g)) (groupby col d))"
    by (rule arg_cong)
  also have "\<dots> = sum_list (map f d)"
    by (rule groupby_partition)
  finally show ?thesis .
qed

subsection \<open>The functions on DataFrame objects\<close>

text \<open>Each function on objects returns what the function on tables returns for the rows
  of the frame it was given, and leaves every object that existed before the call as it
  was: it only appends new frames and assigns only to frames it has built itself.\<close>

lemma getitem_mask_eq:
  "getitem_mask p df s =
     (length s, s @ [\<lparr> rows = filter p (rows (s ! df)),
         year_month = map_option (\<lambda>c. map snd (filter (\<lambda>(r, y). p r) (zip (rows (s ! df)) c)))
                        (year_month (s ! df)) \<rparr>])"
  by (simp add: getitem_mask_def new_frame_def Let_def)

lemma set_date_same: "map (\<lambda>(r, d). r\<lparr>date := d\<rparr>) (zip xs (map date xs)) = xs"
  by (induction xs) auto

lemma take_nth_same: "take n t = s \<Longrightarrow> i < length s \<Longrightarrow> t ! i = s ! i"
  by (metis nth_take length_take min_less_iff_conj)

lemma analyze_by_category_st_result:
  "df < length s \<Longrightarrow> fst (analyze_by_category_st df s) = analyze_by_category (rows (s ! df))"
  by (simp add: analyze_by_category_st_def analyze_by_category_def getitem_mask_eq
        df_delivered_def nth_append)

lemma analyze_by_category_st_frame:
  "take (length s) (snd (analyze_by_category_st df s)) = s"
  by (simp add: analyze_by_category_st_def getitem_mask_eq)

lemma analyze_by_region_st_result:
  "df < length s \<Longrightarrow> fst (analyze_by_region_st df s) = analyze_by_region (rows (s ! df))"
  by (simp add: analyze_by_region_st_def analyze_by_region_def getitem_mask_eq
        df_delivered_def nth_append)

lemma analyze_by_region_st_frame:
  "take (length s) (snd (analyze_by_region_st df s)) = s"
  by (simp add: analyze_by_region_st_def getitem_mask_eq)

lemma analyze_by_channel_st_result:
  "df < length s \<Longrightarrow> fst (analyze_by_channel_st df s) = analyze_by_channel (rows (s ! df))"
  by (simp add: analyze_by_channel_st_def analyze_by_channel_def getitem_mask_eq
        df_delivered_def nth_append)

lemma analyze_by_channel_st_frame:
  "take (length s) (snd (analyze_by_channel_st df s)) = s"
  by (simp add: analyze_by_channel_st_def getitem_mask_eq)

lemma analyze_by_product_st_result:
  "df < length s \<Longrightarrow>
     fst (analyze_by_product_st df top_n s) = analyze_by_product (rows (s ! df)) top_n"
  by (simp add: analyze_by_product_st_def analyze_by_product_def getitem_mask_eq
        df_delivered_def nth_append)

lemma analyze_by_product_st_frame:
  "take (length s) (snd (analyze_by_product_st df top_n s)) = s"
  by (simp add: analyze_by_product_st_def getitem_mask_eq)

lemma analyze_time_trends_st_result:
  "df < length s \<Longrightarrow> fst (analyze_time_trends_st df s) = analyze_time_trends (rows (s ! df))"
  by (simp add: analyze_time_trends_st_def analyze_time_trends_def getitem_mask_eq
        setitem_year_month_def df_delivered_def nth_append Let_def zip_map2
        zip_same_conv_map comp_def)

lemma analyze_time_trends_st_frame:
  "take (length s) (snd (analyze_time_trends_st df s)) = s"
  by (simp add: analyze_time_trends_st_def getitem_mask_eq setitem_year_month_def Let_def)

lemma analyze_customer_segments_st_result:
  "df < length s \<Longrightarrow>
     fst (analyze_customer_segments_st df s) = analyze_customer_segments (rows (s ! df))"
  by (simp add: analyze_customer_segments_st_def analyze_customer_segments_def getitem_mask_eq
        frame_copy_def new_frame_def setitem_date_def df_delivered_def nth_append Let_def
        set_date_same)

lemma analyze_customer_segments_st_frame:
  "take (length s) (snd (analyze_customer_segments_st df s)) = s"
  by (simp add: analyze_customer_segments_st_def getitem_mask_eq frame_copy_def new_frame_def
        setitem_date_def Let_def)

section \<open>The claims\<close>

text \<open>
  C1. On a table with at least one row and no delivered row, \<open>calculate_kpis\<close> returns
  its dictionary without an exception, and both the average basket \<open>panier_moyen\<close> and
  the revenue per customer \<open>ca_par_client\<close> are the float NaN: the mean of an empty
  column and the numpy division of zero by zero. The program has no other value for an
  undefined metric.
\<close>

theorem kpis_of_no_delivered_are_nan:
  assumes "df \<noteq> []" and "df_delivered df = []"
  shows "\<exists>k. calculate_kpis df = Inr k \<and> panier_moyen k = NaN \<and> ca_par_client k = NaN"
  using assms by (simp add: calculate_kpis_def mean_def np_truediv_def nunique_def Let_def)

theorem kpis_of_no_delivered_are_nan_witness:
  "cancelled_only \<noteq> [] \<and> df_delivered cancelled_only = []
   \<and> (\<exists>k. calculate_kpis cancelled_only = Inr k \<and> panier_moyen k = NaN \<and> ca_par_client k = NaN)"
proof -
  have a: "cancelled_only \<noteq> []" by (simp add: cancelled_only_def)
  have b: "df_delivered cancelled_only = []"
    by (simp add: cancelled_only_def df_delivered_def example_sale_def livree_def annulee_def)
  from kpis_of_no_delivered_are_nan [OF a b] a b show ?thesis by simp
qed

text \<open>The dictionary computed for a single cancelled sale: the two metrics are NaN, next
  to ordinary zeros.\<close>

theorem kpis_of_no_delivered_counterexample:
  "calculate_kpis cancelled_only =
     Inr \<lparr> chiffre_affaires = 0, profit_total = 0, marge_moyenne = NaN, nombre_ventes = 0,
           panier_moyen = NaN, nombre_clients = 0, ca_par_client = NaN, taux_annulation = 100 \<rparr>
   \<and> df_delivered cancelled_only = []"
  by (simp add: calculate_kpis_def cancelled_only_def df_delivered_def example_sale_def
        livree_def annulee_def mean_def np_truediv_def nunique_def Let_def)

text \<open>
  C2. For every customer with at least one delivered row whose delivered prices are
  amounts in whole cents, the table returned by the segmentation has a row, and every
  row of that customer holds the number of the customer's delivered orders and the
  customer's delivered spend (the sum of \<open>total_price\<close>); the segment is decided from
  these two alone, in this order: VIP when the order count is above 5 or the spend is
  above 2000; otherwise Regulier when the order count is between 3 and 5; otherwise
  Occasionnel. In particular 6 orders with a spend of 500 give VIP, 1 order with a spend
  of 2500 gives VIP, and 4 orders with a spend of 300 give Regulier. (The table stores
  the spend rounded to two decimals and the decision reads the stored value, so a spend
  that exceeds a threshold by less than half a cent is not seen to exceed it.)
\<close>

theorem segment_is_ordered_decision:
  assumes "c \<in> customer_id ` set (df_delivered df)"
    and "\<forall>r \<in> set (df_delivered df). customer_id r = c \<longrightarrow> is_cents (total_price r)"
  shows "(\<exists>m \<in> set (fst (analyze_customer_segments df)). cm_customer_id m = c)
       \<and> (\<forall>m \<in> set (fst (analyze_customer_segments df)). cm_customer_id m = c \<longrightarrow>
            nb_commandes m = length (filter (\<lambda>r. customer_id r = c) (df_delivered df))
          \<and> ca_total m = sum_list (map total_price
               (filter (\<lambda>r. customer_id r = c) (df_delivered df)))
          \<and> segment m =
               (if 5 < length (filter (\<lambda>r. customer_id r = c) (df_delivered df))
                   \<or> 2000 < sum_list (map total_price
                        (filter (\<lambda>r. customer_id r = c) (df_delivered df)))
                then ''VIP''
                else if 3 \<le> length (filter (\<lambda>r. customer_id r = c) (df_delivered df))
                      \<and> length (filter (\<lambda>r. customer_id r = c) (df_delivered df)) \<le> 5
                then regulier
                else ''Occasionnel''))
       \<and> segment_customer \<lparr> cm_customer_id = c, derniere_commande = l,
                             nb_commandes = 6, ca_total = 500 \<rparr> = ''VIP''
       \<and> segment_customer \<lparr> cm_customer_id = c, derniere_commande = l,
                             nb_commandes = 1, ca_total = 2500 \<rparr> = ''VIP''
       \<and> segment_customer \<lparr> cm_customer_id = c, derniere_commande = l,
                             nb_commandes = 4, ca_total = 300 \<rparr> = regulier"
proof -
  let ?cm = "fst (analyze_customer_segments df)"
  let ?g = "filter (\<lambda>r. customer_id r = c) (df_delivered df)"
  have cm: "?cm = customer_metrics_table (df_delivered df)"
    by (simp add: analyze_customer_segments_def Let_def)
  have "set (map cm_customer_id ?cm) = customer_id ` set (df_delivered df)"
    by (simp add: cm customer_metrics_table_ids)
  with assms(1) have "c \<in> set (map cm_customer_id ?cm)" by simp
  then have ex: "\<exists>m \<in> set ?cm. cm_customer_id m = c" by auto
  have "is_cents (sum_list (map total_price ?g))"
    using assms(2) by (intro is_cents_sum_list) auto
  then have exact: "round2 (sum_list (map total_price ?g)) = sum_list (map total_price ?g)"
    by (rule round2_cents)
  have all: "\<forall>m \<in> set ?cm. cm_customer_id m = c \<longrightarrow>
            nb_commandes m = length ?g
          \<and> ca_total m = sum_list (map total_price ?g)
          \<and> segment m =
               (if 5 < length ?g \<or> 2000 < sum_list (map total_price ?g) then ''VIP''
                else if 3 \<le> length ?g \<and> length ?g \<le> 5 then regulier
                else ''Occasionnel'')"
  proof (intro ballI impI)
    fix m assume "m \<in> set ?cm" and c: "cm_customer_id m = c"
    then have m: "m \<in> set (customer_metrics_table (df_delivered df))" by (simp add: cm)
    note row = customer_metrics_table_row [OF m]
    have n: "nb_commandes m = length ?g" using row c by simp
    have t: "ca_total m = sum_list (map total_price ?g)" using row c exact by simp
    have "segment m =
            (if 5 < nb_commandes m \<or> 2000 < ca_total m then ''VIP''
             else if 3 \<le> nb_commandes m \<and> nb_commandes m \<le> 5 then regulier
             else ''Occasionnel'')"
      using row by (auto simp: segment_customer_def)
    then show "nb_commandes m = length ?g
          \<and> ca_total m = sum_list (map total_price ?g)
          \<and> segment m =
               (if 5 < length ?g \<or> 2000 < sum_list (map total_price ?g) then ''VIP''
                else if 3 \<le> length ?g \<and> length ?g \<le> 5 then regulier
                else ''Occasionnel'')"
      using n t by simp
  qed
  have e1: "segment_customer \<lparr> cm_customer_id = c, derniere_commande = l,
                             nb_commandes = 6, ca_total = 500 \<rparr> = ''VIP''"
    by (simp add: segment_customer_def)
  have e2: "segment_customer \<lparr> cm_customer_id = c, derniere_commande = l,
                             nb_commandes = 1, ca_total = 2500 \<rparr> = ''VIP''"
    by (simp add: segment_customer_def)
  have e3: "segment_customer \<lparr> cm_customer_id = c, derniere_commande = l,
                             nb_commandes = 4, ca_total = 300 \<rparr> = regulier"
    by (simp add: segment_customer_def)
  from ex all e1 e2 e3 show ?thesis by blast
qed

text \<open>The customer with one delivered order of 2500 in the example table is a VIP.\<close>

theorem segment_is_ordered_decision_witness:
  "''C1002'' \<in> set (map customer_id (df_delivered example_df))
   \<and> list_all (\<lambda>r. is_cents (total_price r)) (df_delivered example_df)
   \<and> fst (analyze_customer_segments example_df) ! 2
       = \<lparr> cm_customer_id = ''C1002'', derniere_commande = Some (2024, 2, 20),
           nb_commandes = 1, ca_total = 2500, recence_jours = Some 0, segment = ''VIP'' \<rparr>
   \<and> length (filter (\<lambda>r. customer_id r = ''C1002'') (df_delivered example_df)) = 1
   \<and> sum_list (map total_price
         (filter (\<lambda>r. customer_id r = ''C1002'') (df_delivered example_df))) = 2500"
proof -
  have h: "''C1002'' \<in> set (map customer_id (df_delivered example_df))"
    by code_simp
  then have h': "''C1002'' \<in> customer_id ` set (df_delivered example_df)"
    by simp
  have k: "list_all (\<lambda>r. is_cents (total_price r)) (df_delivered example_df)"
    by code_simp
  then have k': "\<forall>r \<in> set (df_delivered example_df).
      customer_id r = ''C1002'' \<longrightarrow> is_cents (total_price r)"
    by (simp add: list_all_iff)
  have r: "fst (analyze_customer_segments example_df) ! 2
       = \<lparr> cm_customer_id = ''C1002'', derniere_commande = Some (2024, 2, 20),
           nb_commandes = 1, ca_total = 2500, recence_jours = Some 0, segment = ''VIP'' \<rparr>"
    by code_simp
  have len: "length (fst (analyze_customer_segments example_df)) = 3"
    by code_simp
  then have m: "fst (analyze_customer_segments example_df) ! 2
       \<in> set (fst (analyze_customer_segments example_df))"
    by simp
  from segment_is_ordered_decision [OF h' k'] have
    "\<forall>m \<in> set (fst (analyze_customer_segments example_df)). cm_customer_id m = ''C1002'' \<longrightarrow>
       nb_commandes m = length (filter (\<lambda>r. customer_id r = ''C1002'') (df_delivered example_df))
     \<and> ca_total m = sum_list (map total_price
          (filter (\<lambda>r. customer_id r = ''C1002'') (df_delivered example_df)))"
    by blast
  with m r have
    "1 = length (filter (\<lambda>r. customer_id r = ''C1002'') (df_delivered example_df))
     \<and> 2500 = sum_list (map total_price
          (filter (\<lambda>r. customer_id r = ''C1002'') (df_delivered example_df)))"
    by fastforce
  with h k r show ?thesis by simp
qed

text \<open>One delivered order of 2000.004: the spend is above 2000, the stored spend is 2000
  and the customer is Occasionnel.\<close>

theorem segment_spend_counterexample:
  "map cm_customer_id (fst (analyze_customer_segments sub_cent_df)) = [''C1000'']
   \<and> map nb_commandes (fst (analyze_customer_segments sub_cent_df)) = [1]
   \<and> map segment (fst (analyze_customer_segments sub_cent_df)) = [''Occasionnel'']
   \<and> map ca_total (fst (analyze_customer_segments sub_cent_df)) = [2000]
   \<and> sum_list (map total_price
        (filter (\<lambda>r. customer_id r = ''C1000'') (df_delivered sub_cent_df))) = 2000 + 4 / 1000"
proof -
  have a: "map cm_customer_id (fst (analyze_customer_segments sub_cent_df)) = [''C1000'']"
    by code_simp
  have b: "map nb_commandes (fst (analyze_customer_segments sub_cent_df)) = [1]"
    by code_simp
  have c: "map segment (fst (analyze_customer_segments sub_cent_df)) = [''Occasionnel'']"
    by code_simp
  have d: "map ca_total (fst (analyze_customer_segments sub_cent_df)) = [2000]"
    by code_simp
  have e: "sum_list (map total_price
        (filter (\<lambda>r. customer_id r = ''C1000'') (df_delivered sub_cent_df))) = 2000 + 4 / 1000"
    by code_simp
  from a b c d e show ?thesis by simp
qed

text \<open>
  C3. For every table, the category, region, channel and product tables are sorted by
  their column \<open>CA_total\<close> (the rounded sum of \<open>total_price\<close>) in descending order,
  where equal sums may follow each other, and the monthly table is sorted strictly
  ascending by its year-month key.
\<close>

theorem aggregations_sorted:
  "sorted_wrt (\<lambda>a b. b \<le> a) (map cat_CA_total (analyze_by_category df))
   \<and> sorted_wrt (\<lambda>a b. b \<le> a) (map reg_CA_total (analyze_by_region df))
   \<and> sorted_wrt (\<lambda>a b. b \<le> a) (map chn_CA_total (analyze_by_channel df))
   \<and> sorted_wrt (\<lambda>a b. b \<le> a) (map prd_CA_total (analyze_by_product df top_n))
   \<and> sorted_wrt (<) (map trd_year_month (analyze_time_trends df))"
proof -
  have c: "sorted_wrt (\<lambda>a b. b \<le> a) (map cat_CA_total (analyze_by_category df))"
    unfolding analyze_by_category_def category_analysis_def
    by (rule sort_values_desc_descending)
  have r: "sorted_wrt (\<lambda>a b. b \<le> a) (map reg_CA_total (analyze_by_region df))"
    unfolding analyze_by_region_def region_analysis_def
    by (rule sort_values_desc_descending)
  have h: "sorted_wrt (\<lambda>a b. b \<le> a) (map chn_CA_total (analyze_by_channel df))"
    unfolding analyze_by_channel_def channel_analysis_def
    by (rule sort_values_desc_descending)
  have "sorted_wrt (\<lambda>a b. prd_CA_total b \<le> prd_CA_total a) (product_analysis (df_delivered df))"
    using product_analysis_descending [of "df_delivered df"] by (simp add: sorted_wrt_map)
  then have p: "sorted_wrt (\<lambda>a b. b \<le> a) (map prd_CA_total (analyze_by_product df top_n))"
    by (simp add: analyze_by_product_def sorted_wrt_map head_sorted_wrt)
  have t: "sorted_wrt (<) (map trd_year_month (analyze_time_trends df))"
    by (simp add: analyze_time_trends_def monthly_trends_keys groupby_keys_ascending)
  from c r h p t show ?thesis by simp
qed

text \<open>Two categories with the same sum: the category table is not strictly
  descending.\<close>

theorem strictly_descending_counterexample:
  "map cat_CA_total (analyze_by_category tie_df) = [29, 29]
   \<and> \<not> sorted_wrt (\<lambda>a b. b < a) (map cat_CA_total (analyze_by_category tie_df))"
proof -
  have "map cat_CA_total (analyze_by_category tie_df) = [29, 29]"
    by code_simp
  then show ?thesis by simp
qed

text \<open>
  C4. With sums taken in exact arithmetic: when every delivered \<open>total_price\<close> is an
  amount in whole cents, the column \<open>CA_total\<close> of the category, region and channel
  tables and the column \<open>CA\<close> of the monthly table each add up to the sum of
  \<open>total_price\<close> over the delivered rows; so does the product table when \<open>top_n\<close> is at
  least the number of distinct delivered products. (The tables hold sums rounded to two
  decimals, and the product table keeps its first \<open>top_n\<close> rows only.)
\<close>

theorem grouped_sums_partition:
  assumes "\<forall>r \<in> set (df_delivered df). is_cents (total_price r)"
  shows "sum_list (map cat_CA_total (analyze_by_category df))
           = sum_list (map total_price (df_delivered df))
       \<and> sum_list (map reg_CA_total (analyze_by_region df))
           = sum_list (map total_price (df_delivered df))
       \<and> sum_list (map chn_CA_total (analyze_by_channel df))
           = sum_list (map total_price (df_delivered df))
       \<and> sum_list (map trd_CA (analyze_time_trends df))
           = sum_list (map total_price (df_delivered df))
       \<and> (int (nunique (map product_name (df_delivered df))) \<le> top_n \<longrightarrow>
            sum_list (map prd_CA_total (analyze_by_product df top_n))
              = sum_list (map total_price (df_delivered df)))"
proof -
  let ?d = "df_delivered df"
  have c: "sum_list (map cat_CA_total (analyze_by_category df)) = sum_list (map total_price ?d)"
    using round2_group_sums [OF assms, of category]
    by (simp add: analyze_by_category_def category_analysis_def sort_values_desc_sum
          comp_def case_prod_unfold)
  have r: "sum_list (map reg_CA_total (analyze_by_region df)) = sum_list (map total_price ?d)"
    using round2_group_sums [OF assms, of region]
    by (simp add: analyze_by_region_def region_analysis_def sort_values_desc_sum
          comp_def case_prod_unfold)
  have h: "sum_list (map chn_CA_total (analyze_by_channel df)) = sum_list (map total_price ?d)"
    using round2_group_sums [OF assms, of channel]
    by (simp add: analyze_by_channel_def channel_analysis_def sort_values_desc_sum
          comp_def case_prod_unfold)
  have pa: "sum_list (map prd_CA_total (product_analysis ?d)) = sum_list (map total_price ?d)"
    using round2_group_sums [OF assms, of product_name]
    by (simp add: product_analysis_def sort_values_desc_sum comp_def case_prod_unfold)
  have pl: "length (product_analysis ?d) = nunique (map product_name ?d)"
    by (simp add: product_analysis_def sort_values_desc_length groupby_def nunique_def)
  have p: "int (nunique (map product_name ?d)) \<le> top_n \<longrightarrow>
            sum_list (map prd_CA_total (analyze_by_product df top_n))
              = sum_list (map total_price ?d)"
    using pa pl by (auto simp: analyze_by_product_def head_def)
  let ?t = "map (\<lambda>r. (r, to_period_M (date r))) ?d"
  have "\<forall>x \<in> set ?t. is_cents ((total_price \<circ> fst) x)"
    using assms by auto
  from round2_group_sums [OF this, of snd]
  have t: "sum_list (map trd_CA (analyze_time_trends df)) = sum_list (map total_price ?d)"
    by (simp add: analyze_time_trends_def monthly_trends_def comp_def case_prod_unfold)
  from c r h p t show ?thesis by simp
qed

theorem grouped_sums_partition_witness:
  "list_all (\<lambda>r. is_cents (total_price r)) (df_delivered example_df)
   \<and> int (nunique (map product_name (df_delivered example_df))) \<le> 10
   \<and> sum_list (map total_price (df_delivered example_df)) = 2558
   \<and> sum_list (map cat_CA_total (analyze_by_category example_df)) = 2558
   \<and> sum_list (map reg_CA_total (analyze_by_region example_df)) = 2558
   \<and> sum_list (map chn_CA_total (analyze_by_channel example_df)) = 2558
   \<and> sum_list (map trd_CA (analyze_time_trends example_df)) = 2558
   \<and> sum_list (map prd_CA_total (analyze_by_product example_df 10)) = 2558"
proof -
  have h: "list_all (\<lambda>r. is_cents (total_price r)) (df_delivered example_df)"
    by code_simp
  then have h': "\<forall>r \<in> set (df_delivered example_df). is_cents (total_price r)"
    by (simp add: list_all_iff)
  have n: "int (nunique (map product_name (df_delivered example_df))) \<le> 10"
    by code_simp
  have t: "sum_list (map total_price (df_delivered example_df)) = 2558"
    by code_simp
  from grouped_sums_partition [OF h', of 10] h n t show ?thesis by simp
qed

text \<open>Eleven products sold for 10 each: the product table of the default call holds ten
  of them and adds up to 100, not 110. One sale of an eighth of a unit: its category sum
  is stored as 0.12.\<close>

theorem partition_counterexample:
  "sum_list (map prd_CA_total (analyze_by_product_default eleven_products)) = 100
   \<and> sum_list (map total_price (df_delivered eleven_products)) = 110
   \<and> sum_list (map cat_CA_total (analyze_by_category eighth_df)) = 3/25
   \<and> sum_list (map total_price (df_delivered eighth_df)) = 1/8"
proof -
  have a: "sum_list (map prd_CA_total (analyze_by_product_default eleven_products)) = 100"
    by code_simp
  have b: "sum_list (map total_price (df_delivered eleven_products)) = 110"
    by code_simp
  have c: "sum_list (map cat_CA_total (analyze_by_category eighth_df)) = 3/25"
    by code_simp
  have d: "sum_list (map total_price (df_delivered eighth_df)) = 1/8"
    by code_simp
  from a b c d show ?thesis by simp
qed

text \<open>
  C5. Every metric of the KPI dictionary except \<open>taux_annulation\<close> is computed from the
  delivered rows alone: two tables (each with at least one row) that have the same
  delivered rows give the same seven values. The cancellation rate \<open>taux_annulation\<close> is
  the share of cancelled rows among all rows of the table, whatever their status.
\<close>

theorem kpis_but_cancellation_rate_from_delivered:
  assumes "df \<noteq> []" and "df' \<noteq> []" and "df_delivered df = df_delivered df'"
  shows "\<exists>k k'. calculate_kpis df = Inr k \<and> calculate_kpis df' = Inr k'
           \<and> chiffre_affaires k = chiffre_affaires k'
           \<and> profit_total k = profit_total k'
           \<and> marge_moyenne k = marge_moyenne k'
           \<and> nombre_ventes k = nombre_ventes k'
           \<and> panier_moyen k = panier_moyen k'
           \<and> nombre_clients k = nombre_clients k'
           \<and> ca_par_client k = ca_par_client k'
           \<and> taux_annulation k
               = of_nat (length (filter (\<lambda>r. status r = annulee) df)) / of_nat (length df) * 100"
  using assms by (simp add: calculate_kpis_def Let_def)

theorem kpis_but_cancellation_rate_from_delivered_witness:
  "delivered_only \<noteq> [] \<and> delivered_only @ cancelled_only \<noteq> []
   \<and> df_delivered delivered_only = df_delivered (delivered_only @ cancelled_only)
   \<and> (\<exists>k k'. calculate_kpis delivered_only = Inr k
         \<and> calculate_kpis (delivered_only @ cancelled_only) = Inr k'
         \<and> chiffre_affaires k = chiffre_affaires k'
         \<and> panier_moyen k = panier_moyen k'
         \<and> ca_par_client k = ca_par_client k')"
proof -
  have a: "delivered_only \<noteq> []" by (simp add: delivered_only_def)
  have b: "delivered_only @ cancelled_only \<noteq> []" by (simp add: delivered_only_def)
  have c: "df_delivered delivered_only = df_delivered (delivered_only @ cancelled_only)"
    by (simp add: cancelled_only_def df_delivered_def example_sale_def livree_def annulee_def)
  from kpis_but_cancellation_rate_from_delivered [OF a b c] a b c show ?thesis by blast
qed

text \<open>Adding a cancelled sale to a table leaves its delivered rows as they are and moves
  the cancellation rate from 0 to 50.\<close>

theorem kpis_cancellation_rate_counterexample:
  "calculate_kpis delivered_only =
     Inr \<lparr> chiffre_affaires = 29, profit_total = 29, marge_moyenne = Finite 100,
           nombre_ventes = 1, panier_moyen = Finite 29, nombre_clients = 1,
           ca_par_client = Finite 29, taux_annulation = 0 \<rparr>
   \<and> calculate_kpis (delivered_only @ cancelled_only) =
     Inr \<lparr> chiffre_affaires = 29, profit_total = 29, marge_moyenne = Finite 100,
           nombre_ventes = 1, panier_moyen = Finite 29, nombre_clients = 1,
           ca_par_client = Finite 29, taux_annulation = 50 \<rparr>
   \<and> df_delivered (delivered_only @ cancelled_only) = df_delivered delivered_only"
  by (simp add: calculate_kpis_def cancelled_only_def delivered_only_def df_delivered_def
        example_sale_def livree_def annulee_def mean_def np_truediv_def nunique_def Let_def)

text \<open>
  C6. When the table has no delivered row, the segmentation returns an empty customer
  table and an empty summary by segment; the function has no failing branch.
\<close>

theorem segmentation_of_no_delivered_is_empty:
  "df_delivered df = [] \<Longrightarrow> analyze_customer_segments df = ([], [])"
  by (simp add: analyze_customer_segments_def customer_metrics_table_def segment_summary_def
        groupby_Nil Let_def)

theorem segmentation_of_no_delivered_is_empty_witness:
  "df_delivered cancelled_only = [] \<and> analyze_customer_segments cancelled_only = ([], [])"
proof -
  have h: "df_delivered cancelled_only = []"
    by (simp add: cancelled_only_def df_delivered_def example_sale_def livree_def annulee_def)
  from segmentation_of_no_delivered_is_empty [OF h] h show ?thesis by simp
qed

text \<open>
  C7. Called on a DataFrame object, the segmentation returns a customer table that has
  exactly one row for each customer identifier occurring among the delivered rows of
  that object and for no other, and every row's segment is one of VIP, Regulier and
  Occasionnel. Running it a second time on the same object, in the store the first run
  has left behind, returns the same tables, and so does running it on any other object
  of any store that holds the same rows.
\<close>

theorem segmentation_total_deterministic:
  assumes "a < length s"
  shows "distinct (map cm_customer_id (fst (fst (analyze_customer_segments_st a s))))
       \<and> set (map cm_customer_id (fst (fst (analyze_customer_segments_st a s))))
           = customer_id ` set (df_delivered (rows (s ! a)))
       \<and> set (map segment (fst (fst (analyze_customer_segments_st a s))))
           \<subseteq> {''VIP'', regulier, ''Occasionnel''}
       \<and> fst (analyze_customer_segments_st a (snd (analyze_customer_segments_st a s)))
           = fst (analyze_customer_segments_st a s)
       \<and> (a' < length s' \<and> rows (s' ! a') = rows (s ! a) \<longrightarrow>
            fst (analyze_customer_segments_st a' s') = fst (analyze_customer_segments_st a s))"
proof -
  let ?df = "rows (s ! a)"
  let ?cm = "fst (fst (analyze_customer_segments_st a s))"
  have res: "fst (analyze_customer_segments_st a s) = analyze_customer_segments ?df"
    by (rule analyze_customer_segments_st_result [OF assms])
  have cm: "?cm = customer_metrics_table (df_delivered ?df)"
    by (simp add: res analyze_customer_segments_def Let_def)
  have ids: "map cm_customer_id ?cm = sort (remdups (map customer_id (df_delivered ?df)))"
    by (simp add: cm customer_metrics_table_ids)
  have d: "distinct (map cm_customer_id ?cm)"
    by (simp add: ids)
  have e: "set (map cm_customer_id ?cm) = customer_id ` set (df_delivered ?df)"
    by (simp add: ids)
  have g: "set (map segment ?cm) \<subseteq> {''VIP'', regulier, ''Occasionnel''}"
  proof
    fix x assume "x \<in> set (map segment ?cm)"
    then obtain m where m: "m \<in> set (customer_metrics_table (df_delivered ?df))"
      and x: "x = segment m"
      by (auto simp: cm)
    from customer_metrics_table_row [OF m] have "segment m = segment_customer m" by simp
    then show "x \<in> {''VIP'', regulier, ''Occasionnel''}"
      by (simp add: x segment_customer_def)
  qed
  let ?s' = "snd (analyze_customer_segments_st a s)"
  have t: "take (length s) ?s' = s" by (rule analyze_customer_segments_st_frame)
  then have len: "length s \<le> length ?s'"
    by (metis length_take min.cobounded1)
  have same: "?s' ! a = s ! a" using t assms by (rule take_nth_same)
  have a': "a < length ?s'" using assms len by simp
  have r: "fst (analyze_customer_segments_st a ?s') = fst (analyze_customer_segments_st a s)"
    by (simp add: analyze_customer_segments_st_result [OF a'] res same)
  have o: "a' < length s' \<and> rows (s' ! a') = rows (s ! a) \<longrightarrow>
            fst (analyze_customer_segments_st a' s') = fst (analyze_customer_segments_st a s)"
    by (simp add: analyze_customer_segments_st_result res)
  from d e g r o show ?thesis by blast
qed

text \<open>On the example table: three customers, one segment each; the same result from a
  second run and from another store holding the same rows.\<close>

theorem segmentation_total_deterministic_witness:
  "(0::nat) < length [\<lparr>rows = example_df, year_month = None\<rparr>]
   \<and> (1::nat) < length [\<lparr>rows = cancelled_only, year_month = None\<rparr>,
                        \<lparr>rows = example_df, year_month = None\<rparr>]
   \<and> map cm_customer_id
        (fst (fst (analyze_customer_segments_st 0 [\<lparr>rows = example_df, year_month = None\<rparr>])))
       = [''C1000'', ''C1001'', ''C1002'']
   \<and> map segment
        (fst (fst (analyze_customer_segments_st 0 [\<lparr>rows = example_df, year_month = None\<rparr>])))
       = [''Occasionnel'', ''Occasionnel'', ''VIP'']
   \<and> remdups (map customer_id (df_delivered example_df)) = [''C1000'', ''C1001'', ''C1002'']
   \<and> fst (analyze_customer_segments_st 0
         (snd (analyze_customer_segments_st 0 [\<lparr>rows = example_df, year_month = None\<rparr>])))
      = fst (analyze_customer_segments_st 0 [\<lparr>rows = example_df, year_month = None\<rparr>])
   \<and> fst (analyze_customer_segments_st 1
         [\<lparr>rows = cancelled_only, year_month = None\<rparr>, \<lparr>rows = example_df, year_month = None\<rparr>])
      = fst (analyze_customer_segments_st 0 [\<lparr>rows = example_df, year_month = None\<rparr>])"
proof -
  have h: "(0::nat) < length [\<lparr>rows = example_df, year_month = None\<rparr>]" by simp
  have h2: "(1::nat) < length [\<lparr>rows = cancelled_only, year_month = None\<rparr>,
                        \<lparr>rows = example_df, year_month = None\<rparr>]" by simp
  have eq: "rows ([\<lparr>rows = cancelled_only, year_month = None\<rparr>,
                   \<lparr>rows = example_df, year_month = None\<rparr>] ! 1)
          = rows ([\<lparr>rows = example_df, year_month = None\<rparr>] ! 0)" by simp
  have c: "map cm_customer_id
        (fst (fst (analyze_customer_segments_st 0 [\<lparr>rows = example_df, year_month = None\<rparr>])))
       = [''C1000'', ''C1001'', ''C1002'']"
    by code_simp
  have g: "map segment
        (fst (fst (analyze_customer_segments_st 0 [\<lparr>rows = example_df, year_month = None\<rparr>])))
       = [''Occasionnel'', ''Occasionnel'', ''VIP'']"
    by code_simp
  have u: "remdups (map customer_id (df_delivered example_df)) = [''C1000'', ''C1001'', ''C1002'']"
    by code_simp
  from segmentation_total_deterministic [OF h, of 1
      "[\<lparr>rows = cancelled_only, year_month = None\<rparr>, \<lparr>rows = example_df, year_month = None\<rparr>]"]
    h2 eq
  have "fst (analyze_customer_segments_st 0
         (snd (analyze_customer_segments_st 0 [\<lparr>rows = example_df, year_month = None\<rparr>])))
      = fst (analyze_customer_segments_st 0 [\<lparr>rows = example_df, year_month = None\<rparr>])
   \<and> fst (analyze_customer_segments_st 1
         [\<lparr>rows = cancelled_only, year_month = None\<rparr>, \<lparr>rows = example_df, year_month = None\<rparr>])
      = fst (analyze_customer_segments_st 0 [\<lparr>rows = example_df, year_month = None\<rparr>])"
    by blast
  with h h2 c g u show ?thesis by blast
qed



text \<open>
  C9. Every aggregation and the segmentation, called with a reference to a DataFrame
  object of the store, leave that object as it was (the same rows with the same fields,
  and no new column), and what they return is the function of the object's rows given
  by the definitions on tables. The new column of the monthly analysis and the date
  column of the segmentation are assigned to frames the functions have built themselves.
\<close>

theorem analyses_leave_input_unchanged:
  assumes "df < length s"
  shows "snd (analyze_by_category_st df s) ! df = s ! df
       \<and> fst (analyze_by_category_st df s) = analyze_by_category (rows (s ! df))
       \<and> snd (analyze_by_region_st df s) ! df = s ! df
       \<and> fst (analyze_by_region_st df s) = analyze_by_region (rows (s ! df))
       \<and> snd (analyze_by_channel_st df s) ! df = s ! df
       \<and> fst (analyze_by_channel_st df s) = analyze_by_channel (rows (s ! df))
       \<and> snd (analyze_by_product_st df top_n s) ! df = s ! df
       \<and> fst (analyze_by_product_st df top_n s) = analyze_by_product (rows (s ! df)) top_n
       \<and> snd (analyze_time_trends_st df s) ! df = s ! df
       \<and> fst (analyze_time_trends_st df s) = analyze_time_trends (rows (s ! df))
       \<and> snd (analyze_customer_segments_st df s) ! df = s ! df
       \<and> fst (analyze_customer_segments_st df s) = analyze_customer_segments (rows (s ! df))"
proof -
  have c: "snd (analyze_by_category_st df s) ! df = s ! df"
    using analyze_by_category_st_frame assms by (rule take_nth_same)
  have r: "snd (analyze_by_region_st df s) ! df = s ! df"
    using analyze_by_region_st_frame assms by (rule take_nth_same)
  have h: "snd (analyze_by_channel_st df s) ! df = s ! df"
    using analyze_by_channel_st_frame assms by (rule take_nth_same)
  have p: "snd (analyze_by_product_st df top_n s) ! df = s ! df"
    using analyze_by_product_st_frame assms by (rule take_nth_same)
  have t: "snd (analyze_time_trends_st df s) ! df = s ! df"
    using analyze_time_trends_st_frame assms by (rule take_nth_same)
  have g: "snd (analyze_customer_segments_st df s) ! df = s ! df"
    using analyze_customer_segments_st_frame assms by (rule take_nth_same)
  show ?thesis
    using c r h p t g
    by (simp add: analyze_by_category_st_result analyze_by_region_st_result
          analyze_by_channel_st_result analyze_by_product_st_result
          analyze_time_trends_st_result analyze_customer_segments_st_result assms)
qed

text \<open>On a store holding the example table: the table is unchanged after the monthly
  analysis, whose new column sits on the second frame.\<close>

theorem analyses_leave_input_unchanged_witness:
  "(0::nat) < length [\<lparr>rows = example_df, year_month = None\<rparr>]
   \<and> snd (analyze_time_trends_st 0 [\<lparr>rows = example_df, year_month = None\<rparr>]) ! 0
       = \<lparr>rows = example_df, year_month = None\<rparr>
   \<and> snd (analyze_customer_segments_st 0 [\<lparr>rows = example_df, year_month = None\<rparr>]) ! 0
       = \<lparr>rows = example_df, year_month = None\<rparr>
   \<and> snd (analyze_by_category_st 0 [\<lparr>rows = example_df, year_month = None\<rparr>]) ! 0
       = \<lparr>rows = example_df, year_month = None\<rparr>
   \<and> map trd_year_month
         (fst (analyze_time_trends_st 0 [\<lparr>rows = example_df, year_month = None\<rparr>]))
       = [(2024, 1), (2024, 2)]
   \<and> year_month (snd (analyze_time_trends_st 0 [\<lparr>rows = example_df, year_month = None\<rparr>]) ! 1)
       = Some [(2024, 1), (2024, 2), (2024, 2)]"
proof -
  have h: "(0::nat) < length [\<lparr>rows = example_df, year_month = None\<rparr>]" by simp
  have k: "map trd_year_month (analyze_time_trends example_df) = [(2024, 1), (2024, 2)]"
    by code_simp
  have y: "year_month
             (snd (analyze_time_trends_st 0 [\<lparr>rows = example_df, year_month = None\<rparr>]) ! 1)
       = Some [(2024, 1), (2024, 2), (2024, 2)]"
    by code_simp
  from analyses_leave_input_unchanged [OF h] k y show ?thesis by simp
qed

text \<open>
  C10. For every table whose delivered prices are amounts in whole cents and every
  \<open>top_n\<close> that is not negative, the product aggregation returns \<open>top_n\<close> rows, or one
  row for every delivered product when there are fewer products. The rows are of
  distinct delivered products, each with the sum of the product's delivered
  \<open>total_price\<close> as \<open>CA_total\<close>, in descending order of it, and no delivered product
  that is left out has a greater sum than a product that is returned. Called without
  \<open>top_n\<close>, the function takes 10. (The table is sorted on sums rounded to two decimals,
  so sums that differ by less than a cent may come out in either order.)
\<close>

theorem top_products:
  assumes "0 \<le> top_n"
    and "\<forall>r \<in> set (df_delivered df). is_cents (total_price r)"
  shows "length (analyze_by_product df top_n)
           = min (nat top_n) (nunique (map product_name (df_delivered df)))
       \<and> distinct (map prd_product (analyze_by_product df top_n))
       \<and> (\<forall>a \<in> set (analyze_by_product df top_n).
            prd_product a \<in> product_name ` set (df_delivered df)
          \<and> prd_CA_total a = sum_list (map total_price
              (filter (\<lambda>r. product_name r = prd_product a) (df_delivered df))))
       \<and> (\<forall>p \<in> product_name ` set (df_delivered df).
            p \<notin> prd_product ` set (analyze_by_product df top_n) \<longrightarrow>
            (\<forall>a \<in> set (analyze_by_product df top_n).
               sum_list (map total_price (filter (\<lambda>r. product_name r = p) (df_delivered df)))
                 \<le> prd_CA_total a))
       \<and> sorted_wrt (\<lambda>x y. y \<le> x) (map prd_CA_total (analyze_by_product df top_n))
       \<and> analyze_by_product_default df = analyze_by_product df 10"
proof -
  let ?d = "df_delivered df"
  let ?t = "product_analysis ?d"
  let ?n = "nat top_n"
  let ?sum = "\<lambda>p. sum_list (map total_price (filter (\<lambda>r. product_name r = p) ?d))"
  have eq: "analyze_by_product df top_n = take ?n ?t"
    using assms(1) by (simp add: analyze_by_product_def head_def)
  have len: "length (analyze_by_product df top_n) = min ?n (nunique (map product_name ?d))"
    by (simp add: eq product_analysis_length min.commute)
  have dist: "distinct (map prd_product (analyze_by_product df top_n))"
    using product_analysis_distinct [of ?d] by (simp add: eq take_map [symmetric] distinct_take)
  have exact: "\<And>p. round2 (?sum p) = ?sum p"
  proof -
    fix p
    have "is_cents (?sum p)" using assms(2) by (intro is_cents_sum_list) auto
    then show "round2 (?sum p) = ?sum p" by (rule round2_cents)
  qed
  have row: "\<And>b. b \<in> set ?t \<Longrightarrow> prd_CA_total b = ?sum (prd_product b)"
    using product_analysis_row exact by simp
  have mem: "\<And>b. b \<in> set ?t \<Longrightarrow> prd_product b \<in> product_name ` set ?d"
    using product_analysis_set [of ?d] by auto
  have rows: "\<forall>a \<in> set (analyze_by_product df top_n).
      prd_product a \<in> product_name ` set ?d \<and> prd_CA_total a = ?sum (prd_product a)"
    using row mem by (auto simp: eq dest: in_set_takeD)
  have srt: "sorted_wrt (\<lambda>a b. prd_CA_total b \<le> prd_CA_total a) (take ?n ?t @ drop ?n ?t)"
    using product_analysis_descending [of ?d] by (simp add: sorted_wrt_map)
  then have top: "\<forall>a \<in> set (take ?n ?t). \<forall>b \<in> set (drop ?n ?t).
      prd_CA_total b \<le> prd_CA_total a"
    unfolding sorted_wrt_append by blast
  have out: "\<forall>p \<in> product_name ` set ?d.
            p \<notin> prd_product ` set (analyze_by_product df top_n) \<longrightarrow>
            (\<forall>a \<in> set (analyze_by_product df top_n). ?sum p \<le> prd_CA_total a)"
  proof (intro ballI impI)
    fix p a
    assume p: "p \<in> product_name ` set ?d"
      and np: "p \<notin> prd_product ` set (analyze_by_product df top_n)"
      and a: "a \<in> set (analyze_by_product df top_n)"
    from p product_analysis_set [of ?d] have "p \<in> prd_product ` set ?t"
      by simp
    then obtain b where b: "b \<in> set ?t" and bp: "prd_product b = p"
      by auto
    have "b \<notin> set (take ?n ?t)" using np bp by (auto simp: eq)
    moreover have "set ?t = set (take ?n ?t) \<union> set (drop ?n ?t)"
      by (metis append_take_drop_id set_append)
    ultimately have "b \<in> set (drop ?n ?t)" using b by blast
    with top a have "prd_CA_total b \<le> prd_CA_total a" by (simp add: eq)
    then show "?sum p \<le> prd_CA_total a" using row [OF b] bp by simp
  qed
  have "sorted_wrt (\<lambda>a b. prd_CA_total b \<le> prd_CA_total a) (take ?n ?t)"
    using srt unfolding sorted_wrt_append by blast
  then have desc: "sorted_wrt (\<lambda>x y. y \<le> x) (map prd_CA_total (analyze_by_product df top_n))"
    by (simp add: eq sorted_wrt_map)
  have dflt: "analyze_by_product_default df = analyze_by_product df 10"
    by (simp add: analyze_by_product_default_def)
  from len dist rows out desc dflt show ?thesis by blast
qed

theorem top_products_witness:
  "(0::int) \<le> 1
   \<and> list_all (\<lambda>r. is_cents (total_price r)) (df_delivered example_df)
   \<and> map prd_product (analyze_by_product example_df 1) = [''Charger'']
   \<and> map prd_CA_total (analyze_by_product example_df 1) = [2500]
   \<and> length (analyze_by_product example_df 1)
       = min (nat 1) (nunique (map product_name (df_delivered example_df)))
   \<and> sum_list (map total_price
        (filter (\<lambda>r. product_name r = ''Mouse'') (df_delivered example_df))) = 29"
proof -
  have h: "(0::int) \<le> 1" by simp
  have k: "list_all (\<lambda>r. is_cents (total_price r)) (df_delivered example_df)"
    by code_simp
  then have k': "\<forall>r \<in> set (df_delivered example_df). is_cents (total_price r)"
    by (simp add: list_all_iff)
  have p: "map prd_product (analyze_by_product example_df 1) = [''Charger'']"
    by code_simp
  have c: "map prd_CA_total (analyze_by_product example_df 1) = [2500]"
    by code_simp
  have m: "sum_list (map total_price
        (filter (\<lambda>r. product_name r = ''Mouse'') (df_delivered example_df))) = 29"
    by code_simp
  from top_products [OF h k'] have
    "length (analyze_by_product example_df 1)
       = min (nat 1) (nunique (map product_name (df_delivered example_df)))"
    by blast
  with h k p c m show ?thesis by simp
qed

text \<open>Two products with sums 10.004 and 10.001, and the same with the sums exchanged:
  both tables are sorted on the column 10.00, 10.00 and the call with \<open>top_n = 1\<close> returns
  the same product for both, which in the first has the smaller sum.\<close>

theorem top_products_counterexample:
  "map prd_product (analyze_by_product close_sums_a 1) = [''Webcam'']
   \<and> sum_list (map total_price
        (filter (\<lambda>r. product_name r = ''Webcam'') (df_delivered close_sums_a))) = 10 + 1 / 1000
   \<and> sum_list (map total_price
        (filter (\<lambda>r. product_name r = ''Mouse'') (df_delivered close_sums_a))) = 10 + 4 / 1000
   \<and> map prd_CA_total (product_analysis (df_delivered close_sums_a)) = [10, 10]
   \<and> map prd_product (analyze_by_product close_sums_b 1) = [''Webcam'']
   \<and> sum_list (map total_price
        (filter (\<lambda>r. product_name r = ''Webcam'') (df_delivered close_sums_b))) = 10 + 4 / 1000
   \<and> sum_list (map total_price
        (filter (\<lambda>r. product_name r = ''Mouse'') (df_delivered close_sums_b))) = 10 + 1 / 1000
   \<and> map prd_CA_total (product_analysis (df_delivered close_sums_b)) = [10, 10]"
proof -
  have a: "map prd_product (analyze_by_product close_sums_a 1) = [''Webcam'']" by code_simp
  have b: "sum_list (map total_price
        (filter (\<lambda>r. product_name r = ''Webcam'') (df_delivered close_sums_a))) = 10 + 1 / 1000"
    by code_simp
  have c: "sum_list (map total_price
        (filter (\<lambda>r. product_name r = ''Mouse'') (df_delivered close_sums_a))) = 10 + 4 / 1000"
    by code_simp
  have d: "map prd_CA_total (product_analysis (df_delivered close_sums_a)) = [10, 10]"
    by code_simp
  have e: "map prd_product (analyze_by_product close_sums_b 1) = [''Webcam'']" by code_simp
  have f: "sum_list (map total_price
        (filter (\<lambda>r. product_name r = ''Webcam'') (df_delivered close_sums_b))) = 10 + 4 / 1000"
    by code_simp
  have g: "sum_list (map total_price
        (filter (\<lambda>r. product_name r = ''Mouse'') (df_delivered close_sums_b))) = 10 + 1 / 1000"
    by code_simp
  have i: "map prd_CA_total (product_analysis (df_delivered close_sums_b)) = [10, 10]"
    by code_simp
  from a b c d e f g i show ?thesis by simp
qed

end
